theory Spec2Isabelle
  imports Main "HOL-Library.Multiset"
begin

section \<open>Data model\<close>

text \<open>
  The entities of the persisted build timer. A \<^verbatim>\<open>Date\<close> is its \<^verbatim>\<open>getTime()\<close> value,
  milliseconds since the epoch, and the integer columns are integers; the durations and
  costs of a request are whole numbers too. A nullable column is an option. The audit columns \<^verbatim>\<open>createdAt\<close> and \<^verbatim>\<open>updatedAt\<close>, which no
  operation reads, are left out. Field names are the source's; where two entities share
  a name, the one of \<^verbatim>\<open>UserResources\<close> carries the prefix \<open>ur_\<close> and the one of
  \<^verbatim>\<open>StartBuildDto\<close> the prefix \<open>dto_\<close>, and \<^verbatim>\<open>Build.id\<close> is \<open>build_id\<close>.
\<close>

type_synonym Date = int

datatype BuildStatus = PENDING | RUNNING | COMPLETED | FAILED

record UserResources =
  ur_userId :: string
  wood :: int
  clay :: int
  iron :: int
  crop :: int

record Build =
  build_id :: string
  userId :: string
  buildType :: string
  startTime :: Date
  executeAt :: Date
  endTime :: "Date option"
  duration :: "int option"
  status :: BuildStatus
  isValid :: bool
  errorMessage :: "string option"
  woodCost :: int
  clayCost :: int
  ironCost :: int
  cropCost :: int

record StartBuildDto =
  dto_userId :: string
  dto_buildType :: string
  dto_duration :: int
  dto_woodCost :: "int option"
  dto_clayCost :: "int option"
  dto_ironCost :: "int option"
  dto_cropCost :: "int option"

text \<open>
  What an operation throws. The two exceptions of the service carry their message; an
  error raised by the persistence layer itself is \<open>QueryFailedError\<close> with the
  message the store gave.
\<close>

datatype error =
  NotFoundException string
  | BadRequestException string
  | QueryFailedError string
  | ValidationError

fun message :: "error \<Rightarrow> string" where
  "message (NotFoundException m) = m"
| "message (BadRequestException m) = m"
| "message (QueryFailedError m) = m"
| "message ValidationError = ''Validation failed''"

section \<open>The persistence layer\<close>

text \<open>
  The two tables, each a list of rows. The outcome of the store calls an operation makes
  is given from outside as a script: the head says whether the next call is rejected
  (\<open>Some m\<close>, with the message of the error) or served (\<open>None\<close>); a script that has
  run out serves every call.
\<close>

record Database =
  user_resources :: "UserResources list"
  builds :: "Build list"

type_synonym faults = "string option list"

definition rejected :: "faults \<Rightarrow> string option" where
  "rejected fs = (case fs of [] \<Rightarrow> None | f # _ \<Rightarrow> f)"

definition findUserResources :: "Database \<Rightarrow> string \<Rightarrow> UserResources option" where
  "findUserResources db uid = find (\<lambda>r. ur_userId r = uid) (user_resources db)"

definition findBuild :: "Database \<Rightarrow> string \<Rightarrow> Build option" where
  "findBuild db bid = find (\<lambda>b. build_id b = bid) (builds db)"

text \<open>\<^verbatim>\<open>save\<close> of an entity: the row with its primary key is replaced, or the row is added.\<close>

definition saveUserResources :: "UserResources \<Rightarrow> Database \<Rightarrow> Database" where
  "saveUserResources e db =
     (case findUserResources db (ur_userId e) of
        None \<Rightarrow> db\<lparr>user_resources := user_resources db @ [e]\<rparr>
      | Some _ \<Rightarrow>
          db\<lparr>user_resources :=
                map (\<lambda>r. if ur_userId r = ur_userId e then e else r) (user_resources db)\<rparr>)"

definition saveBuild :: "Build \<Rightarrow> Database \<Rightarrow> Database" where
  "saveBuild e db =
     (case findBuild db (build_id e) of
        None \<Rightarrow> db\<lparr>builds := builds db @ [e]\<rparr>
      | Some _ \<Rightarrow>
          db\<lparr>builds := map (\<lambda>b. if build_id b = build_id e then e else b) (builds db)\<rparr>)"

text \<open>
  A query runner holds the state other connections see and the view of its own
  transaction; commit publishes the view, rollback discards it. \<^verbatim>\<open>release\<close> discards
  nothing: the runner goes back as it is, and what its transaction wrote and neither
  committed nor rolled back goes with it into the database.
\<close>

record QueryRunner =
  committed :: Database
  working :: Database

definition startTransaction :: "Database \<Rightarrow> QueryRunner" where
  "startTransaction db = \<lparr>committed = db, working = db\<rparr>"

definition commitTransaction :: "QueryRunner \<Rightarrow> QueryRunner" where
  "commitTransaction qr = qr\<lparr>committed := working qr\<rparr>"

definition rollbackTransaction :: "QueryRunner \<Rightarrow> QueryRunner" where
  "rollbackTransaction qr = qr\<lparr>working := committed qr\<rparr>"

definition release :: "QueryRunner \<Rightarrow> Database" where
  "release qr = working qr"

section \<open>startBuild\<close>

text \<open>\<^verbatim>\<open>dto.woodCost || 0\<close>: an omitted cost, like a cost of 0, is 0.\<close>

definition orZero :: "int option \<Rightarrow> int" where
  "orZero c = (case c of None \<Rightarrow> 0 | Some v \<Rightarrow> v)"

definition insufficient :: "UserResources \<Rightarrow> StartBuildDto \<Rightarrow> bool" where
  "insufficient userResources dto =
     (wood userResources < orZero (dto_woodCost dto) \<or>
      clay userResources < orZero (dto_clayCost dto) \<or>
      iron userResources < orZero (dto_ironCost dto) \<or>
      crop userResources < orZero (dto_cropCost dto))"

definition deduct :: "UserResources \<Rightarrow> StartBuildDto \<Rightarrow> UserResources" where
  "deduct userResources dto =
     userResources\<lparr>wood := wood userResources - orZero (dto_woodCost dto),
                   clay := clay userResources - orZero (dto_clayCost dto),
                   iron := iron userResources - orZero (dto_ironCost dto),
                   crop := crop userResources - orZero (dto_cropCost dto)\<rparr>"

text \<open>
  The entity built by \<^verbatim>\<open>manager.create(Build, {...})\<close>; \<open>newId\<close> is the uuid the
  store generates for it and \<open>now\<close> the value of \<^verbatim>\<open>new Date()\<close>.
\<close>

definition createBuild :: "Date \<Rightarrow> string \<Rightarrow> StartBuildDto \<Rightarrow> Build" where
  "createBuild now newId dto =
     (let startTime' = now; executeAt' = startTime' + dto_duration dto in
      \<lparr>build_id = newId,
       userId = dto_userId dto,
       buildType = dto_buildType dto,
       startTime = startTime',
       executeAt = executeAt',
       endTime = None,
       duration = None,
       status = RUNNING,
       isValid = True,
       errorMessage = None,
       woodCost = orZero (dto_woodCost dto),
       clayCost = orZero (dto_clayCost dto),
       ironCost = orZero (dto_ironCost dto),
       cropCost = orZero (dto_cropCost dto)\<rparr>)"

text \<open>
  The body of the \<^verbatim>\<open>try\<close> block, on the query runner. Its four store calls are the
  locked \<^verbatim>\<open>findOne\<close>, the \<^verbatim>\<open>save\<close> of the resources, the \<^verbatim>\<open>save\<close> of the build
  and \<^verbatim>\<open>commitTransaction\<close>; each takes its outcome from the script in that order.
  A throw leaves the block with the error and the runner as it is then. The calls
  around the block (\<^verbatim>\<open>connect\<close>, \<^verbatim>\<open>startTransaction\<close>, \<^verbatim>\<open>rollbackTransaction\<close>,
  \<^verbatim>\<open>release\<close>) are taken as served.
\<close>

definition startBuild_try ::
  "faults \<Rightarrow> Date \<Rightarrow> string \<Rightarrow> StartBuildDto \<Rightarrow> QueryRunner \<Rightarrow> (error \<times> QueryRunner) + (Build \<times> QueryRunner)"
where
  "startBuild_try fs now newId dto qr =
     (case rejected fs of
        Some m \<Rightarrow> Inl (QueryFailedError m, qr)
      | None \<Rightarrow>
     (case findUserResources (working qr) (dto_userId dto) of
        None \<Rightarrow> Inl (NotFoundException (''User '' @ dto_userId dto @ '' not found''), qr)
      | Some userResources \<Rightarrow>
          if insufficient userResources dto
          then Inl (BadRequestException ''Insufficient resources'', qr)
          else
     (case rejected (tl fs) of
        Some m \<Rightarrow> Inl (QueryFailedError m, qr)
      | None \<Rightarrow>
          let qr1 = qr\<lparr>working := saveUserResources (deduct userResources dto) (working qr)\<rparr>;
              build = createBuild now newId dto
          in
     (case rejected (tl (tl fs)) of
        Some m \<Rightarrow> Inl (QueryFailedError m, qr1)
      | None \<Rightarrow>
          let qr2 = qr1\<lparr>working := (working qr1)\<lparr>builds := builds (working qr1) @ [build]\<rparr>\<rparr>
          in
     (case rejected (tl (tl (tl fs))) of
        Some m \<Rightarrow> Inl (QueryFailedError m, qr2)
      | None \<Rightarrow> Inr (build, commitTransaction qr2))))))"

text \<open>
  \<^verbatim>\<open>startBuild\<close>: the transaction is started, the block runs, a throw is followed by
  the rollback and thrown again, and the runner is released.
\<close>

definition startBuild ::
  "faults \<Rightarrow> Date \<Rightarrow> string \<Rightarrow> Database \<Rightarrow> StartBuildDto \<Rightarrow> (error + Build) \<times> Database"
where
  "startBuild fs now newId db dto =
     (case startBuild_try fs now newId dto (startTransaction db) of
        Inr (savedBuild, qr) \<Rightarrow> (Inr savedBuild, release qr)
      | Inl (e, qr) \<Rightarrow> (Inl e, release (rollbackTransaction qr)))"

section \<open>Request validation\<close>

text \<open>
  The constraints the decorators of \<^verbatim>\<open>StartBuildDto\<close> declare: \<^verbatim>\<open>@Min(1)\<close> on the
  duration, \<^verbatim>\<open>@IsOptional() @Min(0)\<close> on each cost. The two \<^verbatim>\<open>@IsString()\<close> fields
  are strings by their type.
\<close>

definition optionalMin0 :: "int option \<Rightarrow> bool" where
  "optionalMin0 c = (case c of None \<Rightarrow> True | Some v \<Rightarrow> 0 \<le> v)"

definition validDto :: "StartBuildDto \<Rightarrow> bool" where
  "validDto dto =
     (1 \<le> dto_duration dto \<and>
      optionalMin0 (dto_woodCost dto) \<and> optionalMin0 (dto_clayCost dto) \<and>
      optionalMin0 (dto_ironCost dto) \<and> optionalMin0 (dto_cropCost dto))"

text \<open>
  Modelled from the spec: the request-validation layer in front of the service, whose
  wiring (the application's entry point) is not among the sources. A request that
  breaks a declared constraint is rejected with ValidationError and the service is not
  called; any other request is passed to \<open>startBuild\<close>.
\<close>

definition validatedStartBuild ::
  "faults \<Rightarrow> Date \<Rightarrow> string \<Rightarrow> Database \<Rightarrow> StartBuildDto \<Rightarrow> (error + Build) \<times> Database"
where
  "validatedStartBuild fs now newId db dto =
     (if validDto dto then startBuild fs now newId db dto else (Inl ValidationError, db))"

section \<open>Sequences of startBuild calls and the ledger invariant\<close>

definition nonNegative :: "UserResources \<Rightarrow> bool" where
  "nonNegative r = (0 \<le> wood r \<and> 0 \<le> clay r \<and> 0 \<le> iron r \<and> 0 \<le> crop r)"

definition ledgerNonNegative :: "Database \<Rightarrow> bool" where
  "ledgerNonNegative db = list_all nonNegative (user_resources db)"

definition costsNonNegative :: "StartBuildDto \<Rightarrow> bool" where
  "costsNonNegative dto =
     (0 \<le> orZero (dto_woodCost dto) \<and> 0 \<le> orZero (dto_clayCost dto) \<and>
      0 \<le> orZero (dto_ironCost dto) \<and> 0 \<le> orZero (dto_cropCost dto))"

text \<open>
  One call with what its environment gives it: the outcomes of its store calls, the
  clock and the generated id. Calls on one user's row are serialised by the row lock,
  so a run of calls is a sequence.
\<close>

record StartBuildCall =
  call_faults :: faults
  call_now :: Date
  call_newId :: string
  call_dto :: StartBuildDto

fun startBuilds :: "StartBuildCall list \<Rightarrow> Database \<Rightarrow> Database" where
  "startBuilds [] db = db"
| "startBuilds (c # cs) db =
     startBuilds cs (snd (startBuild (call_faults c) (call_now c) (call_newId c) db (call_dto c)))"

section \<open>Completion\<close>

definition validateDuration :: "int \<Rightarrow> bool" where
  "validateDuration d = (d > 0)"

text \<open>
  \<^verbatim>\<open>getBuildsToComplete\<close>: one query, the running builds whose \<open>executeAt\<close> is not
  after \<open>now\<close>, in ascending order of \<open>executeAt\<close>.
\<close>

definition getBuildsToComplete :: "faults \<Rightarrow> Date \<Rightarrow> Database \<Rightarrow> (error + Build list) \<times> faults" where
  "getBuildsToComplete fs now db =
     (case rejected fs of
        Some m \<Rightarrow> (Inl (QueryFailedError m), tl fs)
      | None \<Rightarrow>
          (Inr (sort_key executeAt
                  (filter (\<lambda>build. status build = RUNNING \<and> executeAt build \<le> now) (builds db))),
           tl fs))"

text \<open>
  \<^verbatim>\<open>completeBuild(buildId, status)\<close> with its two store calls, \<^verbatim>\<open>findOne\<close> and
  \<^verbatim>\<open>save\<close>. The result carries what is left of the script.
\<close>

definition completeBuild ::
  "faults \<Rightarrow> string \<Rightarrow> BuildStatus \<Rightarrow> Date \<Rightarrow> Database \<Rightarrow> (error + Build) \<times> faults \<times> Database"
where
  "completeBuild fs buildId status' now db =
     (case rejected fs of
        Some m \<Rightarrow> (Inl (QueryFailedError m), tl fs, db)
      | None \<Rightarrow>
     (case findBuild db buildId of
        None \<Rightarrow> (Inl (NotFoundException (''Build '' @ buildId @ '' not found'')), tl fs, db)
      | Some build \<Rightarrow>
          if status build \<noteq> RUNNING
          then (Inl (BadRequestException (''Build '' @ buildId @ '' is not running'')), tl fs, db)
          else
            let endTime' = now;
                duration' = endTime' - startTime build;
                build' = build\<lparr>endTime := Some endTime',
                               duration := Some duration',
                               status := status',
                               isValid := validateDuration duration'\<rparr>
            in
     (case rejected (tl fs) of
        Some m \<Rightarrow> (Inl (QueryFailedError m), tl (tl fs), db)
      | None \<Rightarrow> (Inr build', tl (tl fs), saveBuild build' db))))"

text \<open>
  The loop of \<^verbatim>\<open>recoverCompletedBuilds\<close> over the builds the query returned. The
  handler marks the element of the batch and saves it; that \<^verbatim>\<open>save\<close> stands outside
  any \<^verbatim>\<open>try\<close>, so its rejection leaves the function. A sweep is taken at one clock
  reading \<open>now\<close>.
\<close>

fun recoverLoop ::
  "faults \<Rightarrow> Date \<Rightarrow> Build list \<Rightarrow> nat \<Rightarrow> Database \<Rightarrow> (error + nat) \<times> faults \<times> Database"
where
  "recoverLoop fs now [] recovered db = (Inr recovered, fs, db)"
| "recoverLoop fs now (build # rest) recovered db =
     (case completeBuild fs (build_id build) COMPLETED now db of
        (Inr _, fs', db') \<Rightarrow> recoverLoop fs' now rest (recovered + 1) db'
      | (Inl e, fs', db') \<Rightarrow>
          (case rejected fs' of
             Some m \<Rightarrow> (Inl (QueryFailedError m), tl fs', db')
           | None \<Rightarrow>
               recoverLoop (tl fs') now rest recovered
                 (saveBuild (build\<lparr>status := FAILED, errorMessage := Some (message e)\<rparr>) db')))"

definition recoverCompletedBuilds ::
  "faults \<Rightarrow> Date \<Rightarrow> Database \<Rightarrow> (error + nat) \<times> faults \<times> Database"
where
  "recoverCompletedBuilds fs now db =
     (case getBuildsToComplete fs now db of
        (Inl e, fs') \<Rightarrow> (Inl e, fs', db)
      | (Inr buildsToComplete, fs') \<Rightarrow> recoverLoop fs' now buildsToComplete 0 db)"

section \<open>The scheduler\<close>

record SchedulerService =
  isProcessing :: bool

text \<open>
  The loop of \<^verbatim>\<open>processCompletedBuilds\<close>. The handler calls \<^verbatim>\<open>completeBuild\<close> again
  with \<open>FAILED\<close>; what that call throws leaves the loop.
\<close>

fun processLoop ::
  "faults \<Rightarrow> Date \<Rightarrow> Build list \<Rightarrow> Database \<Rightarrow> (error + unit) \<times> faults \<times> Database"
where
  "processLoop fs now [] db = (Inr (), fs, db)"
| "processLoop fs now (build # rest) db =
     (case completeBuild fs (build_id build) COMPLETED now db of
        (Inr _, fs', db') \<Rightarrow> processLoop fs' now rest db'
      | (Inl _, fs', db') \<Rightarrow>
          (case completeBuild fs' (build_id build) FAILED now db' of
             (Inr _, fs'', db'') \<Rightarrow> processLoop fs'' now rest db''
           | (Inl e, fs'', db'') \<Rightarrow> (Inl e, fs'', db'')))"

text \<open>
  A tick: skipped while the flag is set; otherwise the flag is set, the query and the
  loop run inside the outer \<^verbatim>\<open>try\<close>, whose handler only logs, and the flag is cleared.
\<close>

definition processCompletedBuilds ::
  "faults \<Rightarrow> Date \<Rightarrow> SchedulerService \<Rightarrow> Database \<Rightarrow> SchedulerService \<times> faults \<times> Database"
where
  "processCompletedBuilds fs now svc db =
     (if isProcessing svc then (svc, fs, db)
      else
        let svc1 = svc\<lparr>isProcessing := True\<rparr> in
        (case getBuildsToComplete fs now db of
           (Inl _, fs') \<Rightarrow> (svc1\<lparr>isProcessing := False\<rparr>, fs', db)
         | (Inr buildsToComplete, fs') \<Rightarrow>
             if length buildsToComplete > 0
             then (case processLoop fs' now buildsToComplete db of
                     (_, fs'', db') \<Rightarrow> (svc1\<lparr>isProcessing := False\<rparr>, fs'', db'))
             else (svc1\<lparr>isProcessing := False\<rparr>, fs', db)))"

section \<open>What completion does to one record\<close>

text \<open>
  Notions for stating the properties: a record that is due at \<open>now\<close>; the record
  \<open>completeBuild\<close> saves for a running record when called with \<open>COMPLETED\<close>; the
  record the handler of the recovery sweep saves after an error \<open>e\<close>; and, for a
  store that serves every call, what the sweep saves for an element \<open>b\<close> of its batch
  when the database is \<open>db\<close>.
\<close>

definition due :: "Date \<Rightarrow> Build \<Rightarrow> bool" where
  "due now b = (status b = RUNNING \<and> executeAt b \<le> now)"

definition completedAt :: "Date \<Rightarrow> Build \<Rightarrow> Build" where
  "completedAt now b =
     b\<lparr>endTime := Some now, duration := Some (now - startTime b), status := COMPLETED,
       isValid := validateDuration (now - startTime b)\<rparr>"

definition markedFailed :: "error \<Rightarrow> Build \<Rightarrow> Build" where
  "markedFailed e b = b\<lparr>status := FAILED, errorMessage := Some (message e)\<rparr>"

definition runningIn :: "Database \<Rightarrow> string \<Rightarrow> bool" where
  "runningIn db bid = (case findBuild db bid of None \<Rightarrow> False | Some r \<Rightarrow> status r = RUNNING)"

definition sweepOutcome :: "Date \<Rightarrow> Database \<Rightarrow> Build \<Rightarrow> Build" where
  "sweepOutcome now db b =
     (case findBuild db (build_id b) of
        None \<Rightarrow> markedFailed (NotFoundException (''Build '' @ build_id b @ '' not found'')) b
      | Some r \<Rightarrow>
          if status r = RUNNING then completedAt now r
          else markedFailed (BadRequestException (''Build '' @ build_id b @ '' is not running'')) b)"

section \<open>Example states\<close>

definition db_ex :: Database where
  "db_ex = \<lparr>user_resources =
              [\<lparr>ur_userId = ''u1'', wood = 200, clay = 100, iron = 50, crop = 30\<rparr>,
               \<lparr>ur_userId = ''u2'', wood = 5, clay = 0, iron = 0, crop = 0\<rparr>],
            builds = []\<rparr>"


definition dto_ex :: StartBuildDto where
  "dto_ex = \<lparr>dto_userId = ''u1'', dto_buildType = ''barracks'', dto_duration = 60000,
             dto_woodCost = Some 100, dto_clayCost = Some 50,
             dto_ironCost = None, dto_cropCost = None\<rparr>"

definition dto_wall :: StartBuildDto where
  "dto_wall = \<lparr>dto_userId = ''u2'', dto_buildType = ''wall'', dto_duration = 500,
               dto_woodCost = Some 10, dto_clayCost = None,
               dto_ironCost = None, dto_cropCost = None\<rparr>"

definition dto_zero :: StartBuildDto where
  "dto_zero = \<lparr>dto_userId = ''u1'', dto_buildType = ''barracks'', dto_duration = 0,
               dto_woodCost = Some 100, dto_clayCost = Some 50,
               dto_ironCost = None, dto_cropCost = None\<rparr>"

definition db_100 :: Database where
  "db_100 = \<lparr>user_resources =
               [\<lparr>ur_userId = ''u1'', wood = 100, clay = 0, iron = 0, crop = 0\<rparr>],
             builds = []\<rparr>"

definition call_60 :: "string \<Rightarrow> StartBuildCall" where
  "call_60 newId =
     \<lparr>call_faults = [], call_now = 1000, call_newId = newId,
      call_dto = \<lparr>dto_userId = ''u1'', dto_buildType = ''wall'', dto_duration = 500,
                  dto_woodCost = Some 60, dto_clayCost = None,
                  dto_ironCost = None, dto_cropCost = None\<rparr>\<rparr>"

definition b_past :: Build where
  "b_past = \<lparr>build_id = ''b1'', userId = ''u1'', buildType = ''barracks'',
             startTime = 8000, executeAt = 9000, endTime = None, duration = None,
             status = RUNNING, isValid = True, errorMessage = None,
             woodCost = 10, clayCost = 0, ironCost = 0, cropCost = 0\<rparr>"

definition b_future :: Build where
  "b_future = \<lparr>build_id = ''b2'', userId = ''u1'', buildType = ''wall'',
               startTime = 9500, executeAt = 11000, endTime = None, duration = None,
               status = RUNNING, isValid = True, errorMessage = None,
               woodCost = 0, clayCost = 0, ironCost = 0, cropCost = 0\<rparr>"

definition b_done :: Build where
  "b_done = \<lparr>build_id = ''b3'', userId = ''u2'', buildType = ''warehouse'',
             startTime = 7000, executeAt = 8500, endTime = Some 8504, duration = Some 1504,
             status = COMPLETED, isValid = True, errorMessage = None,
             woodCost = 0, clayCost = 0, ironCost = 0, cropCost = 0\<rparr>"

definition b_late :: Build where
  "b_late = \<lparr>build_id = ''b4'', userId = ''u2'', buildType = ''wall'',
             startTime = 8500, executeAt = 9500, endTime = None, duration = None,
             status = RUNNING, isValid = True, errorMessage = None,
             woodCost = 0, clayCost = 5, ironCost = 0, cropCost = 0\<rparr>"

definition b_past_done :: Build where
  "b_past_done = b_past\<lparr>endTime := Some 10000, duration := Some 2000, status := COMPLETED,
                        isValid := True\<rparr>"

definition b_late_done :: Build where
  "b_late_done = b_late\<lparr>endTime := Some 10000, duration := Some 1500, status := COMPLETED,
                        isValid := True\<rparr>"

definition b_past_failed :: Build where
  "b_past_failed = b_past\<lparr>endTime := Some 10000, duration := Some 2000, status := FAILED,
                          isValid := True\<rparr>"

definition db_due :: Database where
  "db_due = \<lparr>user_resources = [], builds = [b_future, b_done, b_past]\<rparr>"

definition db_due_done :: Database where
  "db_due_done = \<lparr>user_resources = [], builds = [b_future, b_done, b_past_done]\<rparr>"

definition db_due_failed :: Database where
  "db_due_failed = \<lparr>user_resources = [], builds = [b_future, b_done, b_past_failed]\<rparr>"

definition db_two :: Database where
  "db_two = \<lparr>user_resources = [], builds = [b_late, b_past]\<rparr>"

definition db_raced :: Database where
  "db_raced = \<lparr>user_resources = [], builds = [b_late, b_past_done]\<rparr>"

section \<open>Lookups and saves\<close>

lemma builds_saveUserResources: "builds (saveUserResources e db) = builds db"
  by (simp add: saveUserResources_def split: option.splits)

lemma find_Some_key: "find (\<lambda>r. f r = k) xs = Some r \<Longrightarrow> f r = k"
  by (induction xs) (auto split: if_splits)

lemma find_map_replace:
  "find (\<lambda>r. f r = k) xs = Some r \<Longrightarrow> f e = k \<Longrightarrow>
   find (\<lambda>r. f r = k) (map (\<lambda>r. if f r = f e then e else r) xs) = Some e"
  by (induction xs) (auto split: if_splits)

lemma find_map_replace_other:
  "k \<noteq> f e \<Longrightarrow>
   find (\<lambda>r. f r = k) (map (\<lambda>r. if f r = f e then e else r) xs) = find (\<lambda>r. f r = k) xs"
  by (induction xs) auto

lemma find_append_new:
  "find (\<lambda>r. f r = k) (xs @ [e]) =
     (case find (\<lambda>r. f r = k) xs of Some r \<Rightarrow> Some r | None \<Rightarrow> if f e = k then Some e else None)"
  by (induction xs) auto

lemma findUserResources_save:
  "findUserResources (saveUserResources e db) uid =
     (if uid = ur_userId e then Some e else findUserResources db uid)"
  unfolding findUserResources_def saveUserResources_def
  by (auto simp: find_append_new find_map_replace find_map_replace_other findUserResources_def
      split: option.splits)

lemma ur_userId_deduct: "ur_userId (deduct r dto) = ur_userId r"
  by (simp add: deduct_def)

lemma findUserResources_key: "findUserResources db uid = Some r \<Longrightarrow> ur_userId r = uid"
  unfolding findUserResources_def by (rule find_Some_key)

section \<open>startBuild: atomicity, deduction, insufficient resources\<close>

text \<open>
  The transaction folded away: the outcome of \<open>startBuild\<close> in terms of the database
  it was called on. Every throw gives back that database.
\<close>

lemma startBuild_unfold:
  "startBuild fs now newId db dto =
     (case rejected fs of
        Some m \<Rightarrow> (Inl (QueryFailedError m), db)
      | None \<Rightarrow>
     (case findUserResources db (dto_userId dto) of
        None \<Rightarrow> (Inl (NotFoundException (''User '' @ dto_userId dto @ '' not found'')), db)
      | Some r \<Rightarrow>
          if insufficient r dto then (Inl (BadRequestException ''Insufficient resources''), db)
          else
     (case rejected (tl fs) of
        Some m \<Rightarrow> (Inl (QueryFailedError m), db)
      | None \<Rightarrow>
     (case rejected (tl (tl fs)) of
        Some m \<Rightarrow> (Inl (QueryFailedError m), db)
      | None \<Rightarrow>
     (case rejected (tl (tl (tl fs))) of
        Some m \<Rightarrow> (Inl (QueryFailedError m), db)
      | None \<Rightarrow>
          (Inr (createBuild now newId dto),
           (saveUserResources (deduct r dto) db)
             \<lparr>builds := builds db @ [createBuild now newId dto]\<rparr>))))))"
  by (simp add: startBuild_def startBuild_try_def startTransaction_def commitTransaction_def
      rollbackTransaction_def release_def Let_def builds_saveUserResources
      split: option.splits)

lemma startBuild_outcome:
  "(\<exists>b r. findUserResources db (dto_userId dto) = Some r \<and> \<not> insufficient r dto \<and>
          startBuild fs now newId db dto =
            (Inr b, (saveUserResources (deduct r dto) db)\<lparr>builds := builds db @ [b]\<rparr>))
   \<or> (\<exists>e. startBuild fs now newId db dto = (Inl e, db))"
  by (simp add: startBuild_unfold split: option.splits)



text \<open>
  C2. When \<open>startBuild\<close> returns a build, the user's row after the call is the row
  before it with each cost subtracted from its field (an omitted cost counting 0), and
  the build returned is stored, is the user's and of the type asked for, is running and
  valid with no end time, duration or message yet, carries the four costs, starts at the
  clock reading and has \<open>executeAt = startTime + duration\<close>.
\<close>

theorem startBuild_success:
  assumes "startBuild fs now newId db dto = (Inr b, db')"
  shows "\<exists>r. findUserResources db (dto_userId dto) = Some r \<and>
             findUserResources db' (dto_userId dto) =
               Some (r\<lparr>wood := wood r - orZero (dto_woodCost dto),
                       clay := clay r - orZero (dto_clayCost dto),
                       iron := iron r - orZero (dto_ironCost dto),
                       crop := crop r - orZero (dto_cropCost dto)\<rparr>) \<and>
             b \<in> set (builds db') \<and>
             userId b = dto_userId dto \<and> buildType b = dto_buildType dto \<and>
             status b = RUNNING \<and> isValid b \<and>
             endTime b = None \<and> duration b = None \<and> errorMessage b = None \<and>
             woodCost b = orZero (dto_woodCost dto) \<and>
             clayCost b = orZero (dto_clayCost dto) \<and>
             ironCost b = orZero (dto_ironCost dto) \<and>
             cropCost b = orZero (dto_cropCost dto) \<and>
             startTime b = now \<and>
             executeAt b = startTime b + dto_duration dto"
proof -
  from assms obtain r where r: "findUserResources db (dto_userId dto) = Some r"
    and res: "b = createBuild now newId dto"
    "db' = (saveUserResources (deduct r dto) db)\<lparr>builds := builds db @ [b]\<rparr>"
    by (auto simp: startBuild_unfold split: option.splits if_splits)
  have key: "ur_userId (deduct r dto) = dto_userId dto"
    using r by (simp add: ur_userId_deduct findUserResources_key)
  have "findUserResources db' (dto_userId dto) = Some (deduct r dto)"
    using findUserResources_save [of "deduct r dto" db "dto_userId dto"] key
    by (simp add: res(2) findUserResources_def)
  then show ?thesis
    using r res by (simp add: deduct_def createBuild_def)
qed

theorem startBuild_success_witness:
  "startBuild [] 1000 ''b1'' db_ex dto_ex =
     (Inr (createBuild 1000 ''b1'' dto_ex),
      \<lparr>user_resources =
         [\<lparr>ur_userId = ''u1'', wood = 100, clay = 50, iron = 50, crop = 30\<rparr>,
          \<lparr>ur_userId = ''u2'', wood = 5, clay = 0, iron = 0, crop = 0\<rparr>],
       builds = [createBuild 1000 ''b1'' dto_ex]\<rparr>)
   \<and> findUserResources db_ex ''u1'' =
         Some \<lparr>ur_userId = ''u1'', wood = 200, clay = 100, iron = 50, crop = 30\<rparr>
   \<and> status (createBuild 1000 ''b1'' dto_ex) = RUNNING
   \<and> executeAt (createBuild 1000 ''b1'' dto_ex) = 61000"
proof -
  have h: "startBuild [] 1000 ''b1'' db_ex dto_ex =
     (Inr (createBuild 1000 ''b1'' dto_ex),
      \<lparr>user_resources =
         [\<lparr>ur_userId = ''u1'', wood = 100, clay = 50, iron = 50, crop = 30\<rparr>,
          \<lparr>ur_userId = ''u2'', wood = 5, clay = 0, iron = 0, crop = 0\<rparr>],
       builds = [createBuild 1000 ''b1'' dto_ex]\<rparr>)"
    by (simp add: startBuild_unfold rejected_def findUserResources_def saveUserResources_def
        insufficient_def deduct_def orZero_def db_ex_def dto_ex_def)
  from startBuild_success [OF h] show ?thesis
    using h by (simp add: findUserResources_def db_ex_def dto_ex_def createBuild_def)
qed

text \<open>
  C3. For a user whose row the locked read returns, \<open>startBuild\<close> throws
  ``Insufficient resources'' exactly when one of the four costs exceeds the field it is
  compared with; and when one does, the database is left as it was, so that no field
  of the balance has changed and no build was created.
\<close>

theorem startBuild_insufficient:
  assumes "rejected fs = None"
    and "findUserResources db (dto_userId dto) = Some r"
  shows "(fst (startBuild fs now newId db dto) = Inl (BadRequestException ''Insufficient resources'')
            \<longleftrightarrow> (wood r < orZero (dto_woodCost dto) \<or> clay r < orZero (dto_clayCost dto) \<or>
                 iron r < orZero (dto_ironCost dto) \<or> crop r < orZero (dto_cropCost dto)))
       \<and> ((wood r < orZero (dto_woodCost dto) \<or> clay r < orZero (dto_clayCost dto) \<or>
            iron r < orZero (dto_ironCost dto) \<or> crop r < orZero (dto_cropCost dto))
            \<longrightarrow> snd (startBuild fs now newId db dto) = db)"
  using assms by (simp add: startBuild_unfold insufficient_def split: option.splits)

theorem startBuild_insufficient_witness:
  "rejected [] = None
   \<and> findUserResources db_ex (dto_userId dto_wall) =
         Some \<lparr>ur_userId = ''u2'', wood = 5, clay = 0, iron = 0, crop = 0\<rparr>
   \<and> startBuild [] 1000 ''b1'' db_ex dto_wall =
         (Inl (BadRequestException ''Insufficient resources''), db_ex)"
proof -
  have f: "rejected [] = None" by (simp add: rejected_def)
  have u: "findUserResources db_ex (dto_userId dto_wall) =
         Some \<lparr>ur_userId = ''u2'', wood = 5, clay = 0, iron = 0, crop = 0\<rparr>"
    by (simp add: findUserResources_def db_ex_def dto_wall_def)
  from startBuild_insufficient [OF f u, of 1000 "''b1''"] show ?thesis
    using f u by (simp add: dto_wall_def orZero_def prod_eq_iff)
qed

section \<open>The ledger never goes negative\<close>

lemma nonNegative_deduct:
  "nonNegative r \<Longrightarrow> \<not> insufficient r dto \<Longrightarrow> nonNegative (deduct r dto)"
  by (simp add: nonNegative_def insufficient_def deduct_def)

lemma findUserResources_mem:
  "findUserResources db uid = Some r \<Longrightarrow> r \<in> set (user_resources db)"
  unfolding findUserResources_def by (auto simp: find_Some_iff)

lemma ledgerNonNegative_save:
  "ledgerNonNegative db \<Longrightarrow> nonNegative e \<Longrightarrow> ledgerNonNegative (saveUserResources e db)"
  by (auto simp: ledgerNonNegative_def saveUserResources_def list_all_iff split: option.splits)

text \<open>
  One call keeps the invariant whatever its costs are: the deduction is made only after
  each cost was found not to exceed its field.
\<close>

lemma startBuild_preserves_ledger:
  assumes "ledgerNonNegative db"
  shows "ledgerNonNegative (snd (startBuild fs now newId db dto))"
proof (cases "fst (startBuild fs now newId db dto)")
  case (Inl e)
  with startBuild_outcome [of db dto fs now newId] assms show ?thesis by auto
next
  case (Inr b)
  with startBuild_outcome [of db dto fs now newId]
  obtain r where r: "findUserResources db (dto_userId dto) = Some r" "\<not> insufficient r dto"
    and db': "snd (startBuild fs now newId db dto) =
                (saveUserResources (deduct r dto) db)\<lparr>builds := builds db @ [b]\<rparr>"
    by auto
  from r(1) assms have "nonNegative r"
    by (auto simp: ledgerNonNegative_def list_all_iff dest: findUserResources_mem)
  with r(2) have "nonNegative (deduct r dto)" by (simp add: nonNegative_deduct)
  with assms have "ledgerNonNegative (saveUserResources (deduct r dto) db)"
    by (rule ledgerNonNegative_save)
  then show ?thesis by (simp add: db' ledgerNonNegative_def)
qed

lemma startBuilds_preserve_ledger:
  "ledgerNonNegative db \<Longrightarrow> ledgerNonNegative (startBuilds calls db)"
  by (induction calls arbitrary: db) (simp_all add: startBuild_preserves_ledger)

text \<open>
  C10. From a ledger in which every field of every row is at least 0, any sequence of
  \<open>startBuild\<close> calls whose costs are all at least 0, each call returning or throwing
  as it may, leaves a ledger in which every field of every row is at least 0.
\<close>

theorem ledger_never_negative:
  assumes "ledgerNonNegative db"
    and "list_all (\<lambda>c. costsNonNegative (call_dto c)) calls"
  shows "ledgerNonNegative (startBuilds calls db)"
  using assms(1) by (rule startBuilds_preserve_ledger)

text \<open>
  Two calls of cost 60 wood against 100 wood, one after the other as the row lock
  orders them: the first is served, the second is refused, 40 wood remain.
\<close>

theorem ledger_never_negative_witness:
  "ledgerNonNegative db_100
   \<and> list_all (\<lambda>c. costsNonNegative (call_dto c)) [call_60 ''b1'', call_60 ''b2'']
   \<and> ledgerNonNegative (startBuilds [call_60 ''b1'', call_60 ''b2''] db_100)
   \<and> user_resources (startBuilds [call_60 ''b1'', call_60 ''b2''] db_100) =
       [\<lparr>ur_userId = ''u1'', wood = 40, clay = 0, iron = 0, crop = 0\<rparr>]
   \<and> map build_id (builds (startBuilds [call_60 ''b1'', call_60 ''b2''] db_100)) = [''b1'']"
proof -
  have a: "ledgerNonNegative db_100"
    by (simp add: ledgerNonNegative_def nonNegative_def db_100_def)
  have b: "list_all (\<lambda>c. costsNonNegative (call_dto c)) [call_60 ''b1'', call_60 ''b2'']"
    by (simp add: costsNonNegative_def call_60_def orZero_def)
  have c: "startBuilds [call_60 ''b1'', call_60 ''b2''] db_100 =
     \<lparr>user_resources = [\<lparr>ur_userId = ''u1'', wood = 40, clay = 0, iron = 0, crop = 0\<rparr>],
      builds = [createBuild 1000 ''b1'' (call_dto (call_60 ''b1''))]\<rparr>"
    by (simp add: startBuild_unfold rejected_def findUserResources_def saveUserResources_def
        insufficient_def deduct_def orZero_def db_100_def call_60_def)
  from ledger_never_negative [OF a b] show ?thesis
    using a b c by (simp add: createBuild_def)
qed

section \<open>Request validation and the duration\<close>

lemma startBuild_duration_irrelevant:
  "isl (fst (startBuild fs now newId db (dto\<lparr>dto_duration := d\<rparr>))) =
   isl (fst (startBuild fs now newId db dto))"
  by (simp add: startBuild_unfold insufficient_def split: option.split)

text \<open>
  \<open>startBuild\<close> does not look at the duration. Called with a duration of 0 and costs
  the balance covers, it deducts the costs and stores a build whose \<open>executeAt\<close> is
  its \<open>startTime\<close>.
\<close>

theorem startBuild_zero_duration_accepted:
  "startBuild [] 1000 ''b1'' db_ex dto_zero =
     (Inr (createBuild 1000 ''b1'' dto_zero),
      \<lparr>user_resources =
         [\<lparr>ur_userId = ''u1'', wood = 100, clay = 50, iron = 50, crop = 30\<rparr>,
          \<lparr>ur_userId = ''u2'', wood = 5, clay = 0, iron = 0, crop = 0\<rparr>],
       builds = [createBuild 1000 ''b1'' dto_zero]\<rparr>)
   \<and> dto_duration dto_zero = 0
   \<and> executeAt (createBuild 1000 ''b1'' dto_zero) = startTime (createBuild 1000 ''b1'' dto_zero)"
  by (simp add: startBuild_unfold rejected_def findUserResources_def saveUserResources_def
      insufficient_def deduct_def orZero_def db_ex_def dto_zero_def createBuild_def)

text \<open>
  C9, as amended. A request whose duration is 0 or less breaks the constraint declared
  on \<^verbatim>\<open>StartBuildDto\<close>; the validation layer in front of the service rejects it
  with ValidationError without calling \<open>startBuild\<close>, so that no row is locked or
  changed and no build is created. \<open>startBuild\<close> itself makes no check of the
  duration: whether it returns or throws is the same for every duration.
\<close>

theorem validation_rejects_nonpositive_duration:
  assumes "dto_duration dto \<le> 0"
  shows "\<not> validDto dto
       \<and> validatedStartBuild fs now newId db dto = (Inl ValidationError, db)
       \<and> isl (fst (startBuild fs now newId db dto)) =
           isl (fst (startBuild fs now newId db (dto\<lparr>dto_duration := 1\<rparr>)))"
  using assms
  by (simp add: validDto_def validatedStartBuild_def startBuild_duration_irrelevant)

theorem validation_rejects_nonpositive_duration_witness:
  "dto_duration dto_zero \<le> 0
   \<and> validatedStartBuild [] 1000 ''b1'' db_ex dto_zero = (Inl ValidationError, db_ex)
   \<and> \<not> isl (fst (startBuild [] 1000 ''b1'' db_ex dto_zero))"
proof -
  have a: "dto_duration dto_zero \<le> 0" by (simp add: dto_zero_def)
  have b: "\<not> isl (fst (startBuild [] 1000 ''b1'' db_ex dto_zero))"
    by (simp add: startBuild_unfold rejected_def findUserResources_def
        insufficient_def orZero_def db_ex_def dto_zero_def)
  from validation_rejects_nonpositive_duration [OF a, of "[]" 1000 "''b1''" db_ex] show ?thesis
    using a b by simp
qed

section \<open>The due query\<close>

text \<open>
  C6. When the store serves the query, \<open>getBuildsToComplete\<close> returns exactly the
  stored builds that are running with \<open>executeAt \<le> now\<close>, each as often as it is
  stored, in ascending order of \<open>executeAt\<close>. So a running build whose
  \<open>executeAt\<close> has passed is returned, a running build whose \<open>executeAt\<close> is still
  to come is not, and a completed build is not.
\<close>

theorem getBuildsToComplete_due:
  assumes "rejected fs = None"
  shows "\<exists>rs. fst (getBuildsToComplete fs now db) = Inr rs \<and>
           set rs = {b \<in> set (builds db). status b = RUNNING \<and> executeAt b \<le> now} \<and>
           mset rs = filter_mset (\<lambda>b. status b = RUNNING \<and> executeAt b \<le> now) (mset (builds db)) \<and>
           sorted (map executeAt rs)"
  using assms by (simp add: getBuildsToComplete_def)

theorem getBuildsToComplete_due_witness:
  "rejected [] = None
   \<and> fst (getBuildsToComplete [] 10000 db_due) = Inr [b_past]
   \<and> status b_past = RUNNING \<and> executeAt b_past = 10000 - 1000
   \<and> status b_future = RUNNING \<and> executeAt b_future = 10000 + 1000
   \<and> status b_done = COMPLETED \<and> executeAt b_done < 10000
   \<and> set [b_past] = {b \<in> set (builds db_due). status b = RUNNING \<and> executeAt b \<le> 10000}"
proof -
  have f: "rejected [] = None" by (simp add: rejected_def)
  have g: "fst (getBuildsToComplete [] 10000 db_due) = Inr [b_past]"
    by (simp add: getBuildsToComplete_def rejected_def db_due_def b_past_def b_future_def b_done_def)
  from getBuildsToComplete_due [OF f, of 10000 db_due] show ?thesis
    using f g by (simp add: b_past_def b_future_def b_done_def)
qed

section \<open>completeBuild\<close>

lemma findBuild_save:
  "findBuild (saveBuild e db) bid = (if bid = build_id e then Some e else findBuild db bid)"
  unfolding findBuild_def saveBuild_def
  by (auto simp: find_append_new find_map_replace find_map_replace_other findBuild_def
      split: option.splits)

lemma findBuild_key: "findBuild db bid = Some b \<Longrightarrow> build_id b = bid"
  unfolding findBuild_def by (rule find_Some_key)

lemma rejected_Nil: "rejected [] = None"
  by (simp add: rejected_def)

lemma completeBuild_not_running:
  "findBuild db buildId = Some b \<Longrightarrow> status b \<noteq> RUNNING \<Longrightarrow>
   completeBuild fs buildId st now db =
     (case rejected fs of
        Some m \<Rightarrow> (Inl (QueryFailedError m), tl fs, db)
      | None \<Rightarrow> (Inl (BadRequestException (''Build '' @ buildId @ '' is not running'')), tl fs, db))"
  by (simp add: completeBuild_def split: option.splits)

lemma completeBuild_running:
  "findBuild db buildId = Some b \<Longrightarrow> status b = RUNNING \<Longrightarrow>
   rejected fs = None \<Longrightarrow> rejected (tl fs) = None \<Longrightarrow>
   completeBuild fs buildId st now db =
     (Inr (b\<lparr>endTime := Some now, duration := Some (now - startTime b), status := st,
             isValid := (now - startTime b > 0)\<rparr>),
      tl (tl fs),
      saveBuild (b\<lparr>endTime := Some now, duration := Some (now - startTime b), status := st,
                   isValid := (now - startTime b > 0)\<rparr>) db)"
  by (simp add: completeBuild_def validateDuration_def Let_def)

lemma completeBuild_Inr:
  assumes "completeBuild fs buildId st now db = (Inr b', fs', db')"
  shows "\<exists>b. findBuild db buildId = Some b \<and> status b = RUNNING \<and>
             b' = b\<lparr>endTime := Some now, duration := Some (now - startTime b), status := st,
                    isValid := (now - startTime b > 0)\<rparr> \<and>
             db' = saveBuild b' db \<and> fs' = tl (tl fs)"
  using assms
  by (auto simp: completeBuild_def validateDuration_def Let_def split: option.splits if_splits)

lemma completeBuild_b1:
  "completeBuild [] ''b1'' COMPLETED 10000 db_due = (Inr b_past_done, [], db_due_done)"
  by (simp add: completeBuild_def rejected_def findBuild_def saveBuild_def validateDuration_def
      Let_def db_due_def db_due_done_def b_past_done_def b_past_def b_future_def b_done_def)

text \<open>
  C4. \<open>completeBuild\<close> is idempotent through its status guard. If there is no
  record of the id, or the record it loads is not running, the call leaves the database
  as it is, and for a record that is not running it signals ``is not running'' when the
  load was served. Hence after a call that completed a record, with Completed
  or Failed (any status but Running) as the status to set, a second call on the same id,
  at any later time and with any status, changes nothing: the record read back is, in
  every field, the record the first call returned.
\<close>

theorem completeBuild_idempotent:
  "(findBuild db buildId = None \<longrightarrow> snd (snd (completeBuild fs buildId st now db)) = db)
   \<and> (findBuild db buildId = Some b \<and> status b \<noteq> RUNNING \<longrightarrow>
      snd (snd (completeBuild fs buildId st now db)) = db \<and>
      (rejected fs = None \<longrightarrow>
         fst (completeBuild fs buildId st now db) =
           Inl (BadRequestException (''Build '' @ buildId @ '' is not running''))))
   \<and> (completeBuild fs1 buildId st1 now1 db = (Inr b1, fs1', db1) \<and> st1 \<noteq> RUNNING \<longrightarrow>
        findBuild db1 buildId = Some b1 \<and>
        snd (snd (completeBuild fs2 buildId st2 now2 db1)) = db1 \<and>
        findBuild (snd (snd (completeBuild fs2 buildId st2 now2 db1))) buildId = Some b1 \<and>
        (rejected fs2 = None \<longrightarrow>
           fst (completeBuild fs2 buildId st2 now2 db1) =
             Inl (BadRequestException (''Build '' @ buildId @ '' is not running''))))"
proof (intro conjI impI)
  assume "findBuild db buildId = None"
  then show "snd (snd (completeBuild fs buildId st now db)) = db"
    by (simp add: completeBuild_def split: option.splits)
next
  assume a: "findBuild db buildId = Some b \<and> status b \<noteq> RUNNING"
  then show "snd (snd (completeBuild fs buildId st now db)) = db"
    by (simp add: completeBuild_not_running split: option.splits)
  assume "rejected fs = None"
  with a show "fst (completeBuild fs buildId st now db) =
           Inl (BadRequestException (''Build '' @ buildId @ '' is not running''))"
    by (simp add: completeBuild_not_running)
next
  assume a: "completeBuild fs1 buildId st1 now1 db = (Inr b1, fs1', db1) \<and> st1 \<noteq> RUNNING"
  then obtain b0 where b0: "findBuild db buildId = Some b0"
    "b1 = b0\<lparr>endTime := Some now1, duration := Some (now1 - startTime b0), status := st1,
              isValid := (now1 - startTime b0 > 0)\<rparr>"
    "db1 = saveBuild b1 db"
    using completeBuild_Inr by blast
  have k: "build_id b1 = buildId" using b0 by (simp add: findBuild_key)
  show f: "findBuild db1 buildId = Some b1"
    using k by (simp add: b0(3) findBuild_save)
  have s: "status b1 \<noteq> RUNNING" using a b0(2) by simp
  show u: "snd (snd (completeBuild fs2 buildId st2 now2 db1)) = db1"
    using f s by (simp add: completeBuild_not_running split: option.splits)
  show "findBuild (snd (snd (completeBuild fs2 buildId st2 now2 db1))) buildId = Some b1"
    using u f by simp
  assume "rejected fs2 = None"
  then show "fst (completeBuild fs2 buildId st2 now2 db1) =
             Inl (BadRequestException (''Build '' @ buildId @ '' is not running''))"
    using f s by (simp add: completeBuild_not_running)
qed

theorem completeBuild_idempotent_witness:
  "completeBuild [] ''b1'' COMPLETED 10000 db_due = (Inr b_past_done, [], db_due_done)
   \<and> COMPLETED \<noteq> RUNNING
   \<and> completeBuild [] ''b1'' COMPLETED 12000 db_due_done =
       (Inl (BadRequestException ''Build b1 is not running''), [], db_due_done)
   \<and> findBuild db_due_done ''b1'' = Some b_past_done
   \<and> findBuild db_due ''b3'' = Some b_done \<and> status b_done \<noteq> RUNNING
   \<and> completeBuild [] ''b3'' FAILED 10000 db_due =
       (Inl (BadRequestException ''Build b3 is not running''), [], db_due)
   \<and> findBuild db_due ''b9'' = None
   \<and> snd (snd (completeBuild [] ''b9'' COMPLETED 10000 db_due)) = db_due"
proof -
  have h1: "completeBuild [] ''b1'' COMPLETED 10000 db_due = (Inr b_past_done, [], db_due_done)
              \<and> COMPLETED \<noteq> RUNNING"
    by (simp add: completeBuild_b1)
  have h2: "findBuild db_due ''b3'' = Some b_done \<and> status b_done \<noteq> RUNNING"
    by (simp add: findBuild_def db_due_def b_past_def b_future_def b_done_def)
  have t1: "completeBuild [] ''b1'' COMPLETED 12000 db_due_done =
       (Inl (BadRequestException ''Build b1 is not running''), [], db_due_done)"
    by (simp add: completeBuild_def rejected_def findBuild_def db_due_done_def b_past_done_def
        b_past_def b_future_def b_done_def)
  have t2: "completeBuild [] ''b3'' FAILED 10000 db_due =
       (Inl (BadRequestException ''Build b3 is not running''), [], db_due)"
    by (simp add: completeBuild_def rejected_def findBuild_def db_due_def
        b_past_def b_future_def b_done_def)
  have w1: "snd (snd (completeBuild [] ''b1'' COMPLETED 12000 db_due_done)) = db_due_done"
    using completeBuild_idempotent
         [where db = db_due and buildId = "''b1''" and ?fs1.0 = "[]" and ?st1.0 = COMPLETED
            and ?now1.0 = 10000 and ?b1.0 = b_past_done and fs1' = "[]" and ?db1.0 = db_due_done
            and ?fs2.0 = "[]" and ?st2.0 = COMPLETED and ?now2.0 = 12000,
          THEN conjunct2, THEN conjunct2]
      h1 by blast
  have w2: "snd (snd (completeBuild [] ''b3'' FAILED 10000 db_due)) = db_due"
    using completeBuild_idempotent
         [where db = db_due and buildId = "''b3''" and b = b_done and fs = "[]" and st = FAILED
            and now = 10000, THEN conjunct2, THEN conjunct1]
      h2 by blast
  have n: "findBuild db_due ''b9'' = None"
    by (simp add: findBuild_def db_due_def b_past_def b_future_def b_done_def)
  have w3: "snd (snd (completeBuild [] ''b9'' COMPLETED 10000 db_due)) = db_due"
    using completeBuild_idempotent
         [where db = db_due and buildId = "''b9''" and fs = "[]" and st = COMPLETED
            and now = 10000, THEN conjunct1]
      n by blast
  have f: "findBuild db_due_done ''b1'' = Some b_past_done"
    by (simp add: findBuild_def db_due_done_def b_past_done_def b_past_def b_future_def
        b_done_def)
  show ?thesis
    using h1 h2 t1 t2 f n w1 w2 w3 by simp
qed

text \<open>
  \<open>completeBuild\<close> takes the status to set, not a failure reason, and never writes
  \<open>errorMessage\<close>: a record completed as Failed keeps the empty message it had.
\<close>

theorem completeBuild_failed_without_message:
  "completeBuild [] ''b1'' FAILED 10000 db_due = (Inr b_past_failed, [], db_due_failed)
   \<and> status b_past_failed = FAILED
   \<and> errorMessage b_past_failed = None"
  by (simp add: completeBuild_def rejected_def findBuild_def saveBuild_def validateDuration_def
      Let_def db_due_def db_due_failed_def b_past_failed_def b_past_def b_future_def b_done_def)

text \<open>
  C5, as amended. For a record in status Running, \<open>completeBuild\<close> at time \<open>now\<close>,
  its two store calls served, sets \<open>duration = now - startTime\<close> (the time that has
  passed, whatever duration was asked for), \<open>endTime = now\<close>, the status to the
  status it was called with (Completed by default, Failed when the caller passes it) and
  \<open>isValid\<close> to \<open>duration > 0\<close>, a fixed check with no bounds to configure; it
  leaves \<open>errorMessage\<close> and every other field as they were, saves the record and
  returns it.
\<close>

theorem completeBuild_completes:
  assumes "findBuild db buildId = Some b" and "status b = RUNNING"
    and "rejected fs = None" and "rejected (tl fs) = None"
  shows "\<exists>b'. completeBuild fs buildId st now db = (Inr b', tl (tl fs), saveBuild b' db) \<and>
              findBuild (saveBuild b' db) buildId = Some b' \<and>
              b' = b\<lparr>endTime := Some now, duration := Some (now - startTime b), status := st,
                     isValid := (now - startTime b > 0)\<rparr> \<and>
              duration b' = Some (now - startTime b) \<and> endTime b' = Some now \<and>
              status b' = st \<and> isValid b' = (now - startTime b > 0) \<and>
              errorMessage b' = errorMessage b"
  using assms by (simp add: completeBuild_running findBuild_save findBuild_key)

theorem completeBuild_completes_witness:
  "findBuild db_due ''b1'' = Some b_past \<and> status b_past = RUNNING
   \<and> rejected [] = None \<and> rejected (tl []) = None
   \<and> completeBuild [] ''b1'' COMPLETED 10000 db_due = (Inr b_past_done, [], db_due_done)
   \<and> duration b_past_done = Some 2000 \<and> executeAt b_past_done - startTime b_past_done = 1000"
proof -
  have a: "findBuild db_due ''b1'' = Some b_past"
    by (simp add: findBuild_def db_due_def b_past_def b_future_def b_done_def)
  have b: "status b_past = RUNNING" by (simp add: b_past_def)
  have c: "rejected [] = None" "rejected (tl []) = None" by (simp_all add: rejected_def)
  from completeBuild_completes [OF a b c, of COMPLETED 10000] show ?thesis
    using a b c by (simp add: completeBuild_b1 b_past_done_def b_past_def)
qed

section \<open>The scheduler tick\<close>

lemmas run_defs = processCompletedBuilds_def getBuildsToComplete_def completeBuild_def
  recoverCompletedBuilds_def rejected_def findBuild_def saveBuild_def validateDuration_def Let_def

lemmas ex_defs = b_past_def b_late_def b_past_done_def b_late_done_def db_two_def db_raced_def

text \<open>
  Whenever the first element of a batch is found not running, the store serving every
  call, the loop of the tick stops there with the database as it was, whatever follows
  in the batch.
\<close>

lemma processLoop_head_not_running:
  "findBuild db (build_id b) = Some r \<Longrightarrow> status r \<noteq> RUNNING \<Longrightarrow>
   processLoop [] now (b # rest) db =
     (Inl (BadRequestException (''Build '' @ build_id b @ '' is not running'')), [], db)"
  by (simp add: completeBuild_not_running rejected_Nil)

text \<open>
  C7. The claim: in a tick, a failure completing one record is caught, that record is
  marked Failed with the message of the error, and the rest of the batch is processed.
  The tick does otherwise, at three inputs. First, a batch \<open>[b1, b4]\<close> of which
  \<open>b1\<close> has been completed by someone else since the query: the handler's second
  \<open>completeBuild\<close> throws as the first did, the loop is left and \<open>b4\<close> stays
  running. Second, a tick on two due builds during which the store rejects the save of
  \<open>b1\<close> in both calls: nothing is processed, though no call for \<open>b4\<close> was
  rejected. Third, the store rejects only the first save: \<open>b1\<close> is saved as Failed,
  with no message.
\<close>

theorem processCompletedBuilds_not_isolated:
  "processLoop [] 10000 [b_past, b_late] db_raced =
     (Inl (BadRequestException ''Build b1 is not running''), [], db_raced)
   \<and> processCompletedBuilds
       [None, None, Some ''connection lost'', None, Some ''connection lost''] 10000
       \<lparr>isProcessing = False\<rparr> db_two
     = (\<lparr>isProcessing = False\<rparr>, [], db_two)
   \<and> processCompletedBuilds [None, None, Some ''deadlock''] 10000 \<lparr>isProcessing = False\<rparr> db_two
     = (\<lparr>isProcessing = False\<rparr>, [],
        \<lparr>user_resources = [],
         builds = [b_late_done, b_past_failed]\<rparr>)
   \<and> errorMessage b_past_failed = None
   \<and> due 10000 b_late"
  by (simp add: run_defs ex_defs b_past_failed_def due_def)

section \<open>The recovery sweep\<close>

lemma build_id_sweepOutcome: "build_id (sweepOutcome now db b) = build_id b"
  by (auto simp: sweepOutcome_def markedFailed_def completedAt_def findBuild_key
      split: option.splits)

lemma status_sweepOutcome:
  "(status (sweepOutcome now db b) = COMPLETED) = runningIn db (build_id b)"
  by (simp add: sweepOutcome_def runningIn_def markedFailed_def completedAt_def
      split: option.splits)

text \<open>One turn of the loop when the store serves every call.\<close>

lemma recoverLoop_step:
  "recoverLoop [] now (b # rest) n db =
     recoverLoop [] now rest (n + (if runningIn db (build_id b) then 1 else 0))
       (saveBuild (sweepOutcome now db b) db)"
  by (simp add: completeBuild_def rejected_Nil runningIn_def sweepOutcome_def completedAt_def
      markedFailed_def Let_def split: option.splits)

lemma sweepOutcome_cong:
  "findBuild db1 (build_id b) = findBuild db (build_id b) \<Longrightarrow>
   sweepOutcome now db1 b = sweepOutcome now db b"
  by (simp add: sweepOutcome_def)

lemma runningIn_cong:
  "findBuild db1 bid = findBuild db bid \<Longrightarrow> runningIn db1 bid = runningIn db bid"
  by (simp add: runningIn_def)

lemma find_None_notin: "k \<notin> f ` set xs \<Longrightarrow> find (\<lambda>r. f r = k) xs = None"
  by (induction xs) auto

lemma find_distinct_key:
  "distinct (map f xs) \<Longrightarrow> x \<in> set xs \<Longrightarrow> find (\<lambda>r. f r = f x) xs = Some x"
  by (induction xs) (auto simp: image_iff)

text \<open>
  The loop over a batch of distinct ids, the store serving every call: it runs to the
  end, counts the elements found running, and leaves for each element the record
  \<open>sweepOutcome\<close> gives and every other id as it was. The batch need not agree with the
  database: an element may have been completed or removed since the query.
\<close>

lemma recoverLoop_reliable:
  assumes "distinct (map build_id batch)"
  shows "\<exists>db'. recoverLoop [] now batch n db =
           (Inr (n + length (filter (\<lambda>b. runningIn db (build_id b)) batch)), [], db') \<and>
         (\<forall>i. findBuild db' i =
            (case find (\<lambda>b. build_id b = i) batch of
               None \<Rightarrow> findBuild db i
             | Some b \<Rightarrow> Some (sweepOutcome now db b)))"
  using assms
proof (induction batch arbitrary: n db)
  case Nil
  then show ?case by simp
next
  case (Cons b rest)
  let ?db1 = "saveBuild (sweepOutcome now db b) db"
  let ?n1 = "n + (if runningIn db (build_id b) then 1 else 0)"
  from Cons.prems have d: "distinct (map build_id rest)" and nb: "build_id b \<notin> build_id ` set rest"
    by auto
  have same: "findBuild ?db1 (build_id x) = findBuild db (build_id x)" if "x \<in> set rest" for x
  proof -
    from that nb have "build_id x \<noteq> build_id b" by (metis imageI)
    then show ?thesis by (simp add: findBuild_save build_id_sweepOutcome)
  qed
  from Cons.IH [OF d, of ?n1 ?db1] obtain db' where
    run: "recoverLoop [] now rest ?n1 ?db1 =
            (Inr (?n1 + length (filter (\<lambda>b. runningIn ?db1 (build_id b)) rest)), [], db')"
    and look: "\<forall>i. findBuild db' i =
            (case find (\<lambda>b. build_id b = i) rest of
               None \<Rightarrow> findBuild ?db1 i
             | Some b \<Rightarrow> Some (sweepOutcome now ?db1 b))"
    by blast
  have same_run: "runningIn ?db1 (build_id x) = runningIn db (build_id x)" if "x \<in> set rest" for x
    using same [OF that] by (rule runningIn_cong)
  have cnt: "filter (\<lambda>b. runningIn ?db1 (build_id b)) rest =
             filter (\<lambda>b. runningIn db (build_id b)) rest"
    using same_run by (intro filter_cong refl) blast
  have "recoverLoop [] now (b # rest) n db =
          (Inr (n + length (filter (\<lambda>b. runningIn db (build_id b)) (b # rest))), [], db')"
    unfolding recoverLoop_step run cnt by simp
  moreover have "findBuild db' i =
            (case find (\<lambda>b. build_id b = i) (b # rest) of
               None \<Rightarrow> findBuild db i
             | Some b \<Rightarrow> Some (sweepOutcome now db b))" for i
  proof (cases "build_id b = i")
    case True
    with nb have "find (\<lambda>b. build_id b = i) rest = None"
      by (auto intro: find_None_notin)
    with True look show ?thesis
      by (simp add: findBuild_save build_id_sweepOutcome)
  next
    case False
    show ?thesis
    proof (cases "find (\<lambda>b. build_id b = i) rest")
      case None
      with False look show ?thesis
        by (simp add: findBuild_save build_id_sweepOutcome)
    next
      case (Some x)
      then have "x \<in> set rest" and "build_id x = i"
        by (auto simp: find_Some_iff)
      then have "sweepOutcome now ?db1 x = sweepOutcome now db x"
        using same [of x] by (intro sweepOutcome_cong) blast
      with False Some look show ?thesis by simp
    qed
  qed
  ultimately show ?case by blast
qed

lemma recoverLoop_batch:
  assumes "distinct (map build_id batch)"
  shows "\<exists>db'. recoverLoop [] now batch 0 db =
           (Inr (length (filter (\<lambda>b. runningIn db (build_id b)) batch)), [], db') \<and>
         (\<forall>b\<in>set batch. findBuild db' (build_id b) = Some (sweepOutcome now db b))"
proof -
  from recoverLoop_reliable [OF assms, of now 0 db] obtain db' where
    loop: "recoverLoop [] now batch 0 db =
             (Inr (0 + length (filter (\<lambda>b. runningIn db (build_id b)) batch)), [], db')"
    and look: "\<forall>i. findBuild db' i =
            (case find (\<lambda>b. build_id b = i) batch of
               None \<Rightarrow> findBuild db i
             | Some b \<Rightarrow> Some (sweepOutcome now db b))"
    by blast
  have "findBuild db' (build_id b) = Some (sweepOutcome now db b)" if "b \<in> set batch" for b
    using look find_distinct_key [OF assms that] by simp
  with loop show ?thesis by auto
qed

lemma getBuildsToComplete_reliable:
  "getBuildsToComplete [] now db = (Inr (sort_key executeAt (filter (due now) (builds db))), [])"
proof -
  have "due now = (\<lambda>build. status build = RUNNING \<and> executeAt build \<le> now)"
    by (rule ext) (simp add: due_def)
  then show ?thesis by (simp add: getBuildsToComplete_def rejected_Nil)
qed

text \<open>
  The whole sweep on a table whose ids are distinct, as a primary key makes them, the
  store serving every call.
\<close>

lemma recoverCompletedBuilds_reliable:
  assumes "distinct (map build_id (builds db))"
  shows "\<exists>db'. recoverCompletedBuilds [] now db =
           (Inr (length (filter (due now) (builds db))), [], db') \<and>
         (\<forall>b\<in>set (builds db).
            findBuild db' (build_id b) = Some (if due now b then completedAt now b else b))"
proof -
  let ?batch = "sort_key executeAt (filter (due now) (builds db))"
  have sb: "set ?batch = {b \<in> set (builds db). due now b}" by auto
  from assms have dist: "distinct (builds db)" and inj: "inj_on build_id (set (builds db))"
    by (simp_all add: distinct_map)
  have "inj_on build_id (set ?batch)"
    by (rule inj_on_subset [OF inj]) (auto simp: sb)
  with dist have dbatch: "distinct (map build_id ?batch)"
    by (simp add: distinct_map)
  have fb: "findBuild db (build_id b) = Some b" if "b \<in> set (builds db)" for b
    unfolding findBuild_def using assms that by (rule find_distinct_key)
  have out: "sweepOutcome now db b = completedAt now b" and run: "runningIn db (build_id b)"
    if "b \<in> set ?batch" for b
    using that fb [of b] by (auto simp: sweepOutcome_def runningIn_def due_def)
  from recoverLoop_reliable [OF dbatch, of now 0 db] obtain db' where
    loop: "recoverLoop [] now ?batch 0 db =
             (Inr (0 + length (filter (\<lambda>b. runningIn db (build_id b)) ?batch)), [], db')"
    and look: "\<forall>i. findBuild db' i =
            (case find (\<lambda>b. build_id b = i) ?batch of
               None \<Rightarrow> findBuild db i
             | Some b \<Rightarrow> Some (sweepOutcome now db b))"
    by blast
  have "filter (\<lambda>b. runningIn db (build_id b)) ?batch = ?batch"
    using run by (intro filter_True) blast
  then have cnt: "length (filter (\<lambda>b. runningIn db (build_id b)) ?batch) =
                  length (filter (due now) (builds db))"
    by simp
  have res: "recoverCompletedBuilds [] now db =
           (Inr (length (filter (due now) (builds db))), [], db')"
    unfolding recoverCompletedBuilds_def getBuildsToComplete_reliable using loop cnt by simp
  have "findBuild db' (build_id b) = Some (if due now b then completedAt now b else b)"
    if b: "b \<in> set (builds db)" for b
  proof (cases "due now b")
    case True
    with b have "b \<in> set ?batch" by (simp add: sb)
    then have "find (\<lambda>x. build_id x = build_id b) ?batch = Some b"
      and "sweepOutcome now db b = completedAt now b"
      using dbatch by (auto intro: find_distinct_key out)
    with look True show ?thesis by simp
  next
    case False
    have "find (\<lambda>x. build_id x = build_id b) ?batch = None"
    proof (rule ccontr)
      assume "find (\<lambda>x. build_id x = build_id b) ?batch \<noteq> None"
      then obtain x where "x \<in> set ?batch" and "build_id x = build_id b"
        by (auto simp: find_None_iff)
      with b inj have "x = b" by (auto simp: sb dest: inj_onD)
      with \<open>x \<in> set ?batch\<close> False show False by (simp add: sb)
    qed
    with look False fb [OF b] show ?thesis by simp
  qed
  with res show ?thesis by blast
qed

text \<open>
  What \<open>completeBuild\<close> throws never leaves the loop: the loop is left only by the
  store rejecting the handler's own save, and the sweep only by that or by the store
  rejecting the query.
\<close>

lemma recoverLoop_abort_only_store:
  "fst (recoverLoop fs now batch n db) = Inl e \<Longrightarrow> \<exists>m. e = QueryFailedError m"
  by (induction batch arbitrary: fs n db)
     (auto split: prod.splits sum.splits option.splits)

lemma recoverCompletedBuilds_abort_only_store:
  "fst (recoverCompletedBuilds fs now db) = Inl e \<Longrightarrow> \<exists>m. e = QueryFailedError m"
  by (auto simp: recoverCompletedBuilds_def getBuildsToComplete_def
      dest: recoverLoop_abort_only_store split: prod.splits sum.splits option.splits)

lemma recover_two:
  "recoverCompletedBuilds [] 10000 db_two =
     (Inr 2, [], \<lparr>user_resources = [], builds = [b_late_done, b_past_done]\<rparr>)"
  by (simp add: run_defs ex_defs)

text \<open>
  A batch whose first element another caller has completed since the query: the error
  of \<open>completeBuild\<close> is caught and the sweep goes on, and the handler saves the
  element of the batch as it was read, marked Failed, over the completed record.
\<close>

lemma recover_raced:
  "recoverLoop [] 10000 [b_past, b_late] 0 db_raced =
     (Inr 1, [],
      \<lparr>user_resources = [],
       builds = [b_late_done,
                 b_past\<lparr>status := FAILED,
                        errorMessage := Some ''Build b1 is not running''\<rparr>]\<rparr>)"
  by (simp add: run_defs ex_defs)

text \<open>
  C8. The claim: the recovery sweep transitions every stored record that is running
  with \<open>executeAt\<close> in the past to Completed with \<open>duration = now - startTime\<close>,
  handles the failure of each record in isolation so that no record's failure aborts
  the sweep, and returns the number of records it transitioned to Completed. The sweep
  does catch what \<open>completeBuild\<close> throws for a record: when the store rejects the
  load of \<open>b1\<close> once, \<open>b1\<close> is saved as Failed with the message, \<open>b4\<close> is
  completed and 1 is returned. But the handler's own save stands outside any
  \<^verbatim>\<open>try\<close>: when the store rejects the load of \<open>b1\<close> and then that save, the
  error leaves \<open>recoverCompletedBuilds\<close>; \<open>b4\<close>, due and running, is not reached,
  stays running, and no count is returned.
\<close>

theorem recoverCompletedBuilds_aborted:
  "recoverCompletedBuilds [None, Some ''connection lost'', Some ''connection lost''] 10000 db_two
     = (Inl (QueryFailedError ''connection lost''), [], db_two)
   \<and> findBuild db_two ''b4'' = Some b_late
   \<and> due 10000 b_late
   \<and> recoverCompletedBuilds [None, Some ''connection lost''] 10000 db_two
     = (Inr 1, [],
        \<lparr>user_resources = [],
         builds = [b_late_done,
                   b_past\<lparr>status := FAILED, errorMessage := Some ''connection lost''\<rparr>]\<rparr>)"
  by (simp add: run_defs ex_defs due_def)

end
